theory Spec2Isabelle
  imports Main
begin

section \<open>The RAG recipe of docs/examples/rag\_weaviate.ipynb\<close>

text \<open>
  The notebook is a straight-line script over a handful of global names. Each code cell
  is modelled as a function on a record of those names; a cell that can raise returns
  \<open>error + state\<close>. The document converter, the hierarchical chunker, the vector
  store and the generative model are libraries and services outside the repository:
  the chunker, the store's per-object insertion outcome, the vector distance and the
  completion call are parameters of the cells that use them.

  The record starts where cell 19 ends: \<open>docs\<close> is the list of converted documents
  (cell 10), \<open>source_titles\<close> the list of titles typed in by hand (cell 8) and
  \<open>client\<close> the connection to the store (cell 19). Names that only live inside a
  loop body (\<open>doc\<close>, \<open>title\<close>, \<open>chunks\<close>, \<open>chunk\<close>, \<open>i\<close>, \<open>text\<close>,
  \<open>data_point\<close>) are not kept in the record.
\<close>

subsection \<open>Data\<close>

text \<open>
  Modelled from the spec: the chunk type is declared in the chunking library, not in the
  notebook. The notebook reads only the attribute \<open>.text\<close>; the heading path is the
  field of the same name of the spec's Chunk (a sequence of (level, text) pairs).
\<close>

record chunk =
  chunk_text :: string
  heading_path :: "(nat \<times> string) list"

text \<open>A Python dict with string keys and string values, in insertion order.\<close>

type_synonym data_point = "(string \<times> string) list"

datatype error = IndexError | UnexpectedStatusCodeError

text \<open>
  The vector store, seen through its client. A collection holds its configuration and
  the objects inserted so far, oldest first; the client maps collection names to
  collections. An object's \<open>uuid\<close> is its id in the store.
\<close>

record stored_object =
  uuid :: nat
  properties :: data_point

datatype data_type = TEXT

record property =
  name :: string
  data_type :: data_type
  skip_vectorization :: bool

record collection =
  vectorizer_config :: string
  generative_config :: string
  property_config :: "property list"
  stored :: "stored_object list"

type_synonym client = "string \<rightharpoonup> collection"

text \<open>
  The values bound to \<open>response\<close>: the result of a batch insertion (cell 24) and the
  result of a generative search (cells 28 and 29). \<open>errors\<close> and \<open>uuids\<close> are dicts
  keyed by the position of the object in the batch, kept in ascending key order.
\<close>

record batch_object_return =
  uuids :: "(nat \<times> nat) list"
  errors :: "(nat \<times> string) list"
  has_errors :: bool

record generative_return =
  generated :: string
  objects :: "stored_object list"

datatype response = BatchObjectReturn batch_object_return | GenerativeReturn generative_return

text \<open>What the cells write to the notebook's output area.\<close>

datatype printed =
    Print_errors "(nat \<times> string) list"
  | Print_str string
  | Panel string string string

text \<open>The notebook's global names. \<open>response\<close> is \<open>None\<close> until a cell binds it.\<close>

record 'doc notebook =
  docs :: "'doc list"
  source_titles :: "string list"
  texts :: "string list"
  titles :: "string list"
  client :: client
  collection_name :: string
  collection :: string
  data :: "data_point list"
  response :: "response option"
  prompt :: string
  query :: string
  stdout :: "printed list"

subsection \<open>Cell 12: hierarchical chunking of every document\<close>

text \<open>
  \<^verbatim>\<open>
  texts, titles = [], []
  chunker = HierarchicalChunker()
  for doc, title in zip(docs, source_titles):
      chunks = list(chunker.chunk(doc))
      for chunk in chunks:
          texts.append(chunk.text)
          titles.append(title)
  \<close>
\<close>

fun for_chunk :: "chunk list \<Rightarrow> string \<Rightarrow> string list \<times> string list \<Rightarrow> string list \<times> string list" where
  "for_chunk [] title (txs, tis) = (txs, tis)"
| "for_chunk (c # cs) title (txs, tis) = for_chunk cs title (txs @ [chunk_text c], tis @ [title])"

fun for_doc :: "('doc \<Rightarrow> chunk list) \<Rightarrow> ('doc \<times> string) list \<Rightarrow> string list \<times> string list \<Rightarrow> string list \<times> string list" where
  "for_doc chunker [] acc = acc"
| "for_doc chunker ((doc, title) # rest) acc = for_doc chunker rest (for_chunk (chunker doc) title acc)"

definition cell12 :: "('doc \<Rightarrow> chunk list) \<Rightarrow> 'doc notebook \<Rightarrow> 'doc notebook" where
  "cell12 chunker s =
     (case for_doc chunker (zip (docs s) (source_titles s)) ([], []) of
        (txs, tis) \<Rightarrow> s\<lparr>texts := txs, titles := tis\<rparr>)"

subsection \<open>Cell 14: concatenate title and text\<close>

text \<open>
  \<^verbatim>\<open>
  for i in range(len(texts)):
      texts[i] = f"{titles[i]} {texts[i]}"
  \<close>
  The range is computed once, before the loop. Reading \<open>titles[i]\<close> or \<open>texts[i]\<close>
  past the end of the list raises IndexError.
\<close>

definition concat_title :: "string \<Rightarrow> string \<Rightarrow> string" where
  "concat_title title body = title @ '' '' @ body"

fun for_i :: "nat list \<Rightarrow> string list \<Rightarrow> string list \<Rightarrow> error + string list" where
  "for_i [] txs tis = Inr txs"
| "for_i (i # is) txs tis =
     (if i < length tis \<and> i < length txs
      then for_i is (txs[i := concat_title (tis ! i) (txs ! i)]) tis
      else Inl IndexError)"

definition cell14 :: "'doc notebook \<Rightarrow> error + 'doc notebook" where
  "cell14 s =
     (case for_i [0..<length (texts s)] (texts s) (titles s) of
        Inl e \<Rightarrow> Inl e
      | Inr txs \<Rightarrow> Inr (s\<lparr>texts := txs\<rparr>))"

subsection \<open>Cell 20: delete the collection if it exists, then create it\<close>

text \<open>
  \<^verbatim>\<open>
  collection_name = "docling"
  if client.collections.exists(collection_name):
      client.collections.delete(collection_name)
  collection = client.collections.create(
      name=collection_name,
      vectorizer_config=wc.Configure.Vectorizer.text2vec_openai(model="text-embedding-3-large"),
      generative_config=wc.Configure.Generative.openai(model="gpt-4o"),
      properties=[
          wc.Property(name="text", data_type=wc.DataType.TEXT),
          wc.Property(name="title", data_type=wc.DataType.TEXT, skip_vectorization=True),
      ],
  )
  \<close>
  The three client calls belong to the store's client library. Creating a collection
  under a name that is taken is refused by the store, which is what the deletion before
  it is for; the new collection is empty.
\<close>

definition collections_exists :: "client \<Rightarrow> string \<Rightarrow> bool" where
  "collections_exists cl n = (cl n \<noteq> None)"

definition collections_delete :: "client \<Rightarrow> string \<Rightarrow> client" where
  "collections_delete cl n = cl(n := None)"

definition collections_create ::
  "client \<Rightarrow> string \<Rightarrow> string \<Rightarrow> string \<Rightarrow> property list \<Rightarrow> error + client" where
  "collections_create cl n vec gen props =
     (if collections_exists cl n then Inl UnexpectedStatusCodeError
      else Inr (cl(n \<mapsto> \<lparr>vectorizer_config = vec, generative_config = gen,
                            property_config = props, stored = []\<rparr>)))"

definition cell20 :: "'doc notebook \<Rightarrow> error + 'doc notebook" where
  "cell20 s =
     (let s1 = s\<lparr>collection_name := ''docling''\<rparr>;
          cl = (if collections_exists (client s1) (collection_name s1)
                then collections_delete (client s1) (collection_name s1)
                else client s1)
      in case collections_create cl (collection_name s1)
                ''text-embedding-3-large'' ''gpt-4o''
                [\<lparr>name = ''text'', data_type = TEXT, skip_vectorization = False\<rparr>,
                 \<lparr>name = ''title'', data_type = TEXT, skip_vectorization = True\<rparr>] of
           Inl e \<Rightarrow> Inl e
         | Inr cl' \<Rightarrow> Inr (s1\<lparr>client := cl', collection := collection_name s1\<rparr>))"

subsection \<open>Cell 22: one dictionary per row\<close>

text \<open>
  \<^verbatim>\<open>
  data = []
  for text, title in zip(texts, titles):
      data_point = {"text": text, "title": title}
      data.append(data_point)
  \<close>
\<close>

fun for_row :: "(string \<times> string) list \<Rightarrow> data_point list \<Rightarrow> data_point list" where
  "for_row [] acc = acc"
| "for_row ((txt, title) # rest) acc = for_row rest (acc @ [[(''text'', txt), (''title'', title)]])"

definition cell22 :: "'doc notebook \<Rightarrow> 'doc notebook" where
  "cell22 s = s\<lparr>data := for_row (zip (texts s) (titles s)) []\<rparr>"

subsection \<open>Cell 24: insert the rows\<close>

text \<open>
  \<^verbatim>\<open>
  response = collection.data.insert_many(data)
  if response.has_errors:
      print(response.errors)
  else:
      print("Insert complete.")
  \<close>
  Modelled from the spec: the batch insertion is the store's. Each object of the batch
  is either stored or refused on its own (a partial batch failure reports which objects
  failed and leaves the others indexed). The decision for the object at position \<open>i\<close>
  is the store's and is the parameter \<open>oc i\<close>; the notebook passes no id, so the id of
  a stored object is the one the store gives it. Inserting through a handle whose
  collection is gone is refused.
\<close>

datatype outcome = is_Stored: Stored (assigned: nat) | Failed (message: string)

fun stored_of :: "(nat \<Rightarrow> outcome) \<Rightarrow> nat \<Rightarrow> data_point list \<Rightarrow> stored_object list" where
  "stored_of oc i [] = []"
| "stored_of oc i (d # ds) =
     (case oc i of
        Stored u \<Rightarrow> \<lparr>uuid = u, properties = d\<rparr> # stored_of oc (Suc i) ds
      | Failed e \<Rightarrow> stored_of oc (Suc i) ds)"

fun uuids_of :: "(nat \<Rightarrow> outcome) \<Rightarrow> nat \<Rightarrow> data_point list \<Rightarrow> (nat \<times> nat) list" where
  "uuids_of oc i [] = []"
| "uuids_of oc i (d # ds) =
     (case oc i of
        Stored u \<Rightarrow> (i, u) # uuids_of oc (Suc i) ds
      | Failed e \<Rightarrow> uuids_of oc (Suc i) ds)"

fun errors_of :: "(nat \<Rightarrow> outcome) \<Rightarrow> nat \<Rightarrow> data_point list \<Rightarrow> (nat \<times> string) list" where
  "errors_of oc i [] = []"
| "errors_of oc i (d # ds) =
     (case oc i of
        Stored u \<Rightarrow> errors_of oc (Suc i) ds
      | Failed e \<Rightarrow> (i, e) # errors_of oc (Suc i) ds)"

definition insert_many ::
  "(nat \<Rightarrow> outcome) \<Rightarrow> collection \<Rightarrow> data_point list \<Rightarrow> collection \<times> batch_object_return" where
  "insert_many oc coll ds =
     (coll\<lparr>stored := stored coll @ stored_of oc 0 ds\<rparr>,
      \<lparr>uuids = uuids_of oc 0 ds, errors = errors_of oc 0 ds,
       has_errors = (errors_of oc 0 ds \<noteq> [])\<rparr>)"

definition cell24 :: "(nat \<Rightarrow> outcome) \<Rightarrow> 'doc notebook \<Rightarrow> error + 'doc notebook" where
  "cell24 oc s =
     (case client s (collection s) of
        None \<Rightarrow> Inl UnexpectedStatusCodeError
      | Some coll \<Rightarrow>
          (case insert_many oc coll (data s) of
             (coll', r) \<Rightarrow>
               Inr (s\<lparr>client := (client s)(collection s \<mapsto> coll'),
                      response := Some (BatchObjectReturn r),
                      stdout := stdout s @
                        [if has_errors r then Print_errors (errors r)
                         else Print_str ''Insert complete.'']\<rparr>)))"

subsection \<open>Cells 28 and 29: retrieval-augmented generation\<close>








subsection \<open>The notebook, top to bottom\<close>

text \<open>
  Cells run in the order of the notebook; a cell that raises stops the run. The
  indexing sequence is cells 20, 22 and 24: delete the collection if it exists, create
  it, build the rows and insert them. Cell 26, a similarity query that prints its two
  hits, is left out: it writes none of the names above except \<open>response\<close>, which
  cell 28 binds again before reading it.
\<close>

definition then_cell :: "error + 'a \<Rightarrow> ('a \<Rightarrow> error + 'b) \<Rightarrow> error + 'b" where
  "then_cell r f = (case r of Inl e \<Rightarrow> Inl e | Inr s \<Rightarrow> f s)"

definition indexing :: "(nat \<Rightarrow> outcome) \<Rightarrow> 'doc notebook \<Rightarrow> error + 'doc notebook" where
  "indexing oc s = then_cell (cell20 s) (\<lambda>s1. cell24 oc (cell22 s1))"

definition run_to_22 :: "('doc \<Rightarrow> chunk list) \<Rightarrow> 'doc notebook \<Rightarrow> error + 'doc notebook" where
  "run_to_22 chunker s =
     then_cell (cell14 (cell12 chunker s)) (\<lambda>s1. then_cell (cell20 s1) (\<lambda>s2. Inr (cell22 s2)))"

definition run_to_24 ::
  "('doc \<Rightarrow> chunk list) \<Rightarrow> (nat \<Rightarrow> outcome) \<Rightarrow> 'doc notebook \<Rightarrow> error + 'doc notebook" where
  "run_to_24 chunker oc s = then_cell (run_to_22 chunker s) (cell24 oc)"


subsection \<open>Observations\<close>

text \<open>The objects held by the collection that the handle \<open>collection\<close> names.\<close>

definition indexed :: "'doc notebook \<Rightarrow> stored_object list" where
  "indexed s = (case client s (collection s) of None \<Rightarrow> [] | Some coll \<Rightarrow> stored coll)"



text \<open>
  The rows the chunking loop is expected to produce: documents in order, the chunks of
  each document in order, every chunk's text paired with the title of its document.
\<close>

definition chunk_rows :: "('doc \<Rightarrow> chunk list) \<Rightarrow> 'doc list \<Rightarrow> string list \<Rightarrow> (string \<times> string) list" where
  "chunk_rows chunker ds ts =
     concat (map (\<lambda>(doc, title). map (\<lambda>c. (chunk_text c, title)) (chunker doc)) (zip ds ts))"

text \<open>
  The records expected from them: the text is the title, one space and the chunk's text.
\<close>

definition titled_rows :: "('doc \<Rightarrow> chunk list) \<Rightarrow> 'doc list \<Rightarrow> string list \<Rightarrow> data_point list" where
  "titled_rows chunker ds ts =
     concat (map (\<lambda>(doc, title).
                     map (\<lambda>c. [(''text'', title @ '' '' @ chunk_text c), (''title'', title)]) (chunker doc))
                 (zip ds ts))"

text \<open>The collection as cell 20 creates it.\<close>

definition empty_docling :: collection where
  "empty_docling =
     \<lparr>vectorizer_config = ''text-embedding-3-large'', generative_config = ''gpt-4o'',
      property_config = [\<lparr>name = ''text'', data_type = TEXT, skip_vectorization = False\<rparr>,
                         \<lparr>name = ''title'', data_type = TEXT, skip_vectorization = True\<rparr>],
      stored = []\<rparr>"

subsection \<open>Concrete inputs\<close>

text \<open>
  A document given as the list of its chunks, with the chunker that returns them; a
  store that accepts every object and numbers the objects of a batch from \<open>base\<close>; a
  store that refuses the objects at odd positions; a distance that ranks nothing; a
  completion that answers with the task.
\<close>

definition listed_chunks :: "chunk list \<Rightarrow> chunk list" where
  "listed_chunks doc = doc"

definition numbered_from :: "nat \<Rightarrow> nat \<Rightarrow> outcome" where
  "numbered_from base i = Stored (base + i)"

definition refuse_odd :: "nat \<Rightarrow> outcome" where
  "refuse_odd i = (if even i then Stored i else Failed ''refused'')"



definition fresh_notebook :: "chunk list notebook" where
  "fresh_notebook =
     \<lparr>docs = [[\<lparr>chunk_text = ''B1'', heading_path = [(1, ''Intro'')]\<rparr>,
               \<lparr>chunk_text = ''B2'', heading_path = [(1, ''Intro''), (2, ''Scope'')]\<rparr>]],
      source_titles = [''T''],
      texts = [], titles = [], client = Map.empty, collection_name = [], collection = [],
      data = [], response = None, prompt = [], query = [], stdout = []\<rparr>"

text \<open>
  The same notebook after cells 12 to 22, and after cell 24 on a store that accepted
  both rows and numbered them 0 and 1.
\<close>

definition ready_notebook :: "chunk list notebook" where
  "ready_notebook =
     fresh_notebook\<lparr>texts := [''T B1'', ''T B2''], titles := [''T'', ''T''],
        client := [''docling'' \<mapsto> empty_docling],
        collection_name := ''docling'', collection := ''docling'',
        data := [[(''text'', ''T B1''), (''title'', ''T'')], [(''text'', ''T B2''), (''title'', ''T'')]]\<rparr>"



definition held_notebook :: "chunk list notebook" where
  "held_notebook =
     fresh_notebook\<lparr>
        client := [''docling'' \<mapsto> empty_docling\<lparr>stored :=
           [\<lparr>uuid = 9, properties = [(''text'', ''U C1''), (''title'', ''U'')]\<rparr>]\<rparr>],
        collection_name := ''docling'', collection := ''docling''\<rparr>"

section \<open>What the loops compute\<close>

lemma for_chunk_eq:
  "for_chunk cs title (txs, tis) = (txs @ map chunk_text cs, tis @ map (\<lambda>c. title) cs)"
  by (induction cs arbitrary: txs tis) simp_all

lemma for_doc_eq:
  "for_doc chunker (zip ds ts) (txs, tis) =
     (txs @ map fst (chunk_rows chunker ds ts), tis @ map snd (chunk_rows chunker ds ts))"
proof -
  have "for_doc chunker ps (txs, tis) =
     (txs @ map fst (concat (map (\<lambda>(doc, title). map (\<lambda>c. (chunk_text c, title)) (chunker doc)) ps)),
      tis @ map snd (concat (map (\<lambda>(doc, title). map (\<lambda>c. (chunk_text c, title)) (chunker doc)) ps)))" for ps
    by (induction ps arbitrary: txs tis) (auto simp: for_chunk_eq comp_def)
  then show ?thesis by (simp add: chunk_rows_def)
qed

lemma cell12_eq:
  "cell12 chunker s =
     s\<lparr>texts := map fst (chunk_rows chunker (docs s) (source_titles s)),
       titles := map snd (chunk_rows chunker (docs s) (source_titles s))\<rparr>"
  by (simp add: cell12_def for_doc_eq)

lemma for_i_upt:
  "k \<le> n \<Longrightarrow> n \<le> length txs \<Longrightarrow> n \<le> length tis \<Longrightarrow>
   for_i [k..<n] txs tis =
     Inr (take k txs @ map (\<lambda>i. concat_title (tis ! i) (txs ! i)) [k..<n] @ drop n txs)"
proof (induction "n - k" arbitrary: k txs)
  case 0
  then show ?case by simp
next
  case (Suc d)
  then have kn: "k < n" by simp
  then have upt: "[k..<n] = k # [Suc k..<n]" by (simp add: upt_conv_Cons)
  have d: "d = n - Suc k" using Suc.hyps(2) by simp
  let ?txs = "txs[k := concat_title (tis ! k) (txs ! k)]"
  have ih: "for_i [Suc k..<n] ?txs tis =
     Inr (take (Suc k) ?txs @ map (\<lambda>i. concat_title (tis ! i) (?txs ! i)) [Suc k..<n] @ drop n ?txs)"
    using Suc.hyps(1)[OF d, of ?txs] kn Suc.prems by simp
  have m: "map (\<lambda>i. concat_title (tis ! i) (?txs ! i)) [Suc k..<n] = map (\<lambda>i. concat_title (tis ! i) (txs ! i)) [Suc k..<n]"
    by (rule map_cong) auto
  have t: "take (Suc k) ?txs = take k txs @ [concat_title (tis ! k) (txs ! k)]"
    using kn Suc.prems by (simp add: take_Suc_conv_app_nth)
  have dr: "drop n ?txs = drop n txs" using kn by simp
  show ?case using kn Suc.prems by (simp add: upt ih m t dr del: upt_Suc)
qed

lemma for_i_all:
  assumes l: "length txs = length tis"
  shows "for_i [0..<length txs] txs tis = Inr (map2 concat_title tis txs)"
proof -
  have "map (\<lambda>i. concat_title (tis ! i) (txs ! i)) [0..<length txs] = map2 concat_title tis txs"
    using l by (intro nth_equalityI) auto
  then show ?thesis using for_i_upt[of 0 "length txs" txs tis] l by simp
qed

lemma map2_rows: "map2 f (map snd r) (map fst r) = map (\<lambda>(x, t). f t x) r"
  by (induction r) auto

lemma cell14_cell12:
  "cell14 (cell12 chunker s) =
     Inr ((cell12 chunker s)\<lparr>texts := map (\<lambda>(x, t). concat_title t x)
                                      (chunk_rows chunker (docs s) (source_titles s))\<rparr>)"
  by (simp add: cell14_def cell12_eq for_i_all[of "map fst r" "map snd r" for r, simplified] map2_rows)

lemma for_row_eq:
  "for_row ps acc = acc @ map (\<lambda>(txt, title). [(''text'', txt), (''title'', title)]) ps"
  by (induction ps arbitrary: acc) auto

lemma cell22_eq:
  "cell22 s = s\<lparr>data := map (\<lambda>(txt, title). [(''text'', txt), (''title'', title)]) (zip (texts s) (titles s))\<rparr>"
  by (simp add: cell22_def for_row_eq)

lemma cell20_eq:
  "cell20 s = Inr (s\<lparr>client := (client s)(''docling'' \<mapsto> empty_docling),
                     collection_name := ''docling'', collection := ''docling''\<rparr>)"
  by (simp add: cell20_def collections_create_def collections_exists_def collections_delete_def
        empty_docling_def Let_def)

lemma cell24_eq:
  "client s (collection s) = Some coll \<Longrightarrow>
   cell24 oc s =
     Inr (s\<lparr>client := (client s)(collection s \<mapsto> coll\<lparr>stored := stored coll @ stored_of oc 0 (data s)\<rparr>),
           response := Some (BatchObjectReturn
              \<lparr>uuids = uuids_of oc 0 (data s), errors = errors_of oc 0 (data s),
               has_errors = (errors_of oc 0 (data s) \<noteq> [])\<rparr>),
           stdout := stdout s @
             [if errors_of oc 0 (data s) \<noteq> [] then Print_errors (errors_of oc 0 (data s))
              else Print_str ''Insert complete.'']\<rparr>)"
  by (simp add: cell24_def insert_many_def)

lemma indexing_eq:
  "indexing oc s =
     Inr (s\<lparr>client := (client s)(''docling'' \<mapsto> empty_docling\<lparr>stored := stored_of oc 0 (data (cell22 s))\<rparr>),
           collection_name := ''docling'', collection := ''docling'',
           data := data (cell22 s),
           response := Some (BatchObjectReturn
              \<lparr>uuids = uuids_of oc 0 (data (cell22 s)), errors = errors_of oc 0 (data (cell22 s)),
               has_errors = (errors_of oc 0 (data (cell22 s)) \<noteq> [])\<rparr>),
           stdout := stdout s @
             [if errors_of oc 0 (data (cell22 s)) \<noteq> [] then Print_errors (errors_of oc 0 (data (cell22 s)))
              else Print_str ''Insert complete.'']\<rparr>)"
  by (simp add: indexing_def then_cell_def cell20_eq cell24_eq[where coll = empty_docling] cell22_def empty_docling_def)

lemma run_to_24_indexing:
  "run_to_24 chunker oc s = then_cell (cell14 (cell12 chunker s)) (indexing oc)"
  by (simp add: run_to_24_def run_to_22_def indexing_def then_cell_def cell14_cell12 cell20_eq)

lemma stored_of_uuid:
  "map uuid (stored_of oc i ds) = map assigned (filter is_Stored (map oc [i..<i + length ds]))"
proof (induction ds arbitrary: i)
  case Nil
  then show ?case by simp
next
  case (Cons d ds)
  have "[i..<Suc (i + length ds)] = i # [Suc i..<Suc (i + length ds)]"
    by (rule upt_conv_Cons) simp
  then show ?case using Cons.IH[of "Suc i"] by (cases "oc i") (simp_all del: upt_Suc)
qed

lemma errors_of_keys:
  "map fst (errors_of oc i ds) = filter (\<lambda>j. \<not> is_Stored (oc j)) [i..<i + length ds]"
proof (induction ds arbitrary: i)
  case Nil
  then show ?case by simp
next
  case (Cons d ds)
  have "[i..<Suc (i + length ds)] = i # [Suc i..<Suc (i + length ds)]"
    by (rule upt_conv_Cons) simp
  then show ?case using Cons.IH[of "Suc i"] by (cases "oc i") (simp_all del: upt_Suc)
qed

lemma stored_of_properties:
  "map properties (stored_of oc i ds) =
     map snd (filter (\<lambda>(j, d). is_Stored (oc j)) (zip [i..<i + length ds] ds))"
proof (induction ds arbitrary: i)
  case Nil
  then show ?case by simp
next
  case (Cons d ds)
  have "[i..<Suc (i + length ds)] = i # [Suc i..<Suc (i + length ds)]"
    by (rule upt_conv_Cons) simp
  then show ?case using Cons.IH[of "Suc i"] by (cases "oc i") (simp_all del: upt_Suc)
qed

lemma stored_of_numbered:
  "map properties (stored_of (numbered_from b) i ds) = ds"
  by (induction ds arbitrary: i) (simp_all add: numbered_from_def)



lemma rows_concat_title:
  "map (\<lambda>(x, t). concat_title t x) (chunk_rows chunker ds ts) =
     concat (map (\<lambda>(doc, title). map (\<lambda>c. title @ '' '' @ chunk_text c) (chunker doc)) (zip ds ts))"
  by (simp add: chunk_rows_def map_concat comp_def case_prod_unfold concat_title_def)

lemma chunked_eq:
  "cell14 (cell12 chunker s) =
     Inr (s\<lparr>texts := map (\<lambda>(x, t). concat_title t x) (chunk_rows chunker (docs s) (source_titles s)),
           titles := map snd (chunk_rows chunker (docs s) (source_titles s))\<rparr>)"
  unfolding cell14_cell12 by (simp add: cell12_eq)

lemma zip_titled_rows:
  "zip (map (\<lambda>(x, t). concat_title t x) r) (map snd r) = map (\<lambda>(x, t). (concat_title t x, t)) r"
  by (induction r) auto

lemma data_of_rows:
  "map ((\<lambda>(txt, title). [(''text'', txt), (''title'', title)]) \<circ> (\<lambda>(x, t). (concat_title t x, t)))
       (chunk_rows chunker ds ts) = titled_rows chunker ds ts"
  by (simp add: chunk_rows_def titled_rows_def map_concat comp_def case_prod_unfold concat_title_def)

lemma run_to_22_eq:
  "run_to_22 chunker s =
     Inr (s\<lparr>texts := map (\<lambda>(x, t). concat_title t x) (chunk_rows chunker (docs s) (source_titles s)),
           titles := map snd (chunk_rows chunker (docs s) (source_titles s)),
           client := (client s)(''docling'' \<mapsto> empty_docling),
           collection_name := ''docling'', collection := ''docling'',
           data := titled_rows chunker (docs s) (source_titles s)\<rparr>)"
  by (simp add: run_to_22_def chunked_eq then_cell_def cell20_eq cell22_eq zip_titled_rows data_of_rows)

lemma stored_empty_docling: "stored empty_docling = []"
  by (simp add: empty_docling_def)

lemma run_to_24_eq:
  "run_to_24 chunker oc s =
     Inr (s\<lparr>texts := map (\<lambda>(x, t). concat_title t x) (chunk_rows chunker (docs s) (source_titles s)),
           titles := map snd (chunk_rows chunker (docs s) (source_titles s)),
           client := (client s)(''docling'' \<mapsto>
              empty_docling\<lparr>stored := stored_of oc 0 (titled_rows chunker (docs s) (source_titles s))\<rparr>),
           collection_name := ''docling'', collection := ''docling'',
           data := titled_rows chunker (docs s) (source_titles s),
           response := Some (BatchObjectReturn
              \<lparr>uuids = uuids_of oc 0 (titled_rows chunker (docs s) (source_titles s)),
               errors = errors_of oc 0 (titled_rows chunker (docs s) (source_titles s)),
               has_errors = (errors_of oc 0 (titled_rows chunker (docs s) (source_titles s)) \<noteq> [])\<rparr>),
           stdout := stdout s @
             [if errors_of oc 0 (titled_rows chunker (docs s) (source_titles s)) \<noteq> []
              then Print_errors (errors_of oc 0 (titled_rows chunker (docs s) (source_titles s)))
              else Print_str ''Insert complete.'']\<rparr>)"
  by (simp add: run_to_24_def run_to_22_eq then_cell_def cell24_eq[where coll = empty_docling] stored_empty_docling)

lemma fresh_rows:
  "titled_rows listed_chunks (docs fresh_notebook) (source_titles fresh_notebook) =
     [[(''text'', ''T B1''), (''title'', ''T'')], [(''text'', ''T B2''), (''title'', ''T'')]]"
  by (simp add: titled_rows_def fresh_notebook_def listed_chunks_def)

lemma fresh_chunk_rows:
  "chunk_rows listed_chunks (docs fresh_notebook) (source_titles fresh_notebook) =
     [(''B1'', ''T''), (''B2'', ''T'')]"
  by (simp add: chunk_rows_def fresh_notebook_def listed_chunks_def)

lemma ready_notebook_run: "run_to_22 listed_chunks fresh_notebook = Inr ready_notebook"
  by (simp add: run_to_22_eq fresh_rows fresh_chunk_rows ready_notebook_def concat_title_def)
     (simp add: fresh_notebook_def)












section \<open>Properties\<close>

subsection \<open>Context composition\<close>

text \<open>
  C1. The text that is embedded for a chunk is the title of the chunk's document, one
  space, and the chunk's text as the chunker returned it; the chunks come in document
  order and, within a document, in chunk order. The cell adds no heading-path
  breadcrumb, and the separator after the title is a single space, not a line.
\<close>

theorem title_prefix_composition:
  "map_sum id texts (cell14 (cell12 chunker s)) =
     Inr (concat (map (\<lambda>(doc, title). map (\<lambda>c. title @ '' '' @ chunk_text c) (chunker doc))
                      (zip (docs s) (source_titles s))))"
  by (simp add: cell14_cell12 rows_concat_title)

text \<open>
  C1 with a breadcrumb and a delimiter line does not hold: for the document titled
  \<open>T\<close> whose chunks \<open>B1\<close> and \<open>B2\<close> sit under the headings \<open>Intro\<close> and
  \<open>Intro / Scope\<close>, the embedded texts are \<open>T B1\<close> and \<open>T B2\<close>.
\<close>

theorem title_prefix_counterexample:
  "map_sum id texts (cell14 (cell12 listed_chunks fresh_notebook)) = Inr [''T B1'', ''T B2'']"
  by (simp add: cell14_cell12 rows_concat_title fresh_notebook_def listed_chunks_def)



subsection \<open>The chunking loop\<close>

text \<open>
  C8. After the chunking loop \<open>texts\<close> and \<open>titles\<close> have the same length, and
  position by position they pair every chunk's text with the title of the chunk's
  document, documents in order and chunks in order within a document. The records
  built by cell 22 keep that order.
\<close>

theorem texts_titles_aligned:
  "length (texts (cell12 chunker s)) = length (titles (cell12 chunker s)) \<and>
   zip (texts (cell12 chunker s)) (titles (cell12 chunker s)) =
     concat (map (\<lambda>(doc, title). map (\<lambda>c. (chunk_text c, title)) (chunker doc))
                 (zip (docs s) (source_titles s))) \<and>
   map_sum id data (run_to_22 chunker s) =
     Inr (concat (map (\<lambda>(doc, title).
                     map (\<lambda>c. [(''text'', title @ '' '' @ chunk_text c), (''title'', title)]) (chunker doc))
                 (zip (docs s) (source_titles s))))"
proof -
  have "zip (texts (cell12 chunker s)) (titles (cell12 chunker s)) =
          chunk_rows chunker (docs s) (source_titles s)"
    by (simp add: cell12_eq zip_map_fst_snd)
  moreover have "length (texts (cell12 chunker s)) = length (titles (cell12 chunker s))"
    by (simp add: cell12_eq)
  moreover have "map_sum id data (run_to_22 chunker s) =
          Inr (titled_rows chunker (docs s) (source_titles s))"
    by (simp add: run_to_22_eq)
  ultimately show ?thesis by (simp add: chunk_rows_def titled_rows_def)
qed



subsection \<open>Indexing\<close>

text \<open>
  C2. A record handed to the store has exactly the fields \<open>text\<close> and \<open>title\<close>, and
  no id; the ids of the objects in the collection after the indexing sequence are the
  ones the store gave to the objects it accepted, in batch order.
\<close>

theorem records_carry_no_id:
  "map (map fst) (data (cell22 s)) = map (\<lambda>row. [''text'', ''title'']) (zip (texts s) (titles s)) \<and>
   map_sum id (map uuid \<circ> indexed) (indexing oc s) =
     Inr (map assigned (filter is_Stored (map oc [0..<length (data (cell22 s))])))"
  by (simp add: indexing_eq indexed_def stored_of_uuid) (simp add: cell22_eq case_prod_unfold comp_def)

text \<open>
  C2 with ids fixed by document and position does not hold: the same document indexed
  on a store that numbers from 0 and on one that numbers from 100 gets the ids 0, 1
  and 100, 101.
\<close>

theorem chunk_id_counterexample:
  "map_sum id (map uuid \<circ> indexed)
     (run_to_24 listed_chunks (numbered_from 0) fresh_notebook) = Inr [0, 1] \<and>
   map_sum id (map uuid \<circ> indexed)
     (run_to_24 listed_chunks (numbered_from 100) fresh_notebook) = Inr [100, 101]"
  by (simp add: run_to_24_eq indexed_def fresh_rows numbered_from_def)

text \<open>
  C3. Re-indexing deletes before it inserts, and it deletes the whole collection: after
  cell 20 the collection is the empty one, whatever it held before and of whichever
  document. After the indexing sequence it holds exactly the objects stored from the
  rows built from \<open>texts\<close> and \<open>titles\<close>; after the run from the chunking loop on,
  exactly those stored from the rows of the documents chunked, so nothing of an
  earlier pass remains.
\<close>

theorem reindex_leaves_no_stale_chunk:
  "map_sum id (\<lambda>s'. client s' ''docling'') (cell20 s) = Inr (Some empty_docling) \<and>
   map_sum id indexed (cell20 s) = Inr [] \<and>
   map_sum id indexed (indexing oc s) =
     Inr (stored_of oc 0
            (map (\<lambda>(txt, title). [(''text'', txt), (''title'', title)]) (zip (texts s) (titles s)))) \<and>
   map_sum id indexed (run_to_24 chunker oc s) =
     Inr (stored_of oc 0
            (concat (map (\<lambda>(doc, title).
                       map (\<lambda>c. [(''text'', title @ '' '' @ chunk_text c), (''title'', title)]) (chunker doc))
                     (zip (docs s) (source_titles s))))) \<and>
   map_sum id (map properties \<circ> indexed) (run_to_24 chunker (numbered_from b) s) =
     Inr (concat (map (\<lambda>(doc, title).
                       map (\<lambda>c. [(''text'', title @ '' '' @ chunk_text c), (''title'', title)]) (chunker doc))
                     (zip (docs s) (source_titles s))))"
proof -
  have a: "map_sum id (\<lambda>s'. client s' ''docling'') (cell20 s) = Inr (Some empty_docling)"
    by (simp add: cell20_eq)
  have b: "map_sum id indexed (cell20 s) = Inr []"
    by (simp add: cell20_eq indexed_def stored_empty_docling)
  have c: "map_sum id indexed (indexing oc s) =
     Inr (stored_of oc 0
            (map (\<lambda>(txt, title). [(''text'', txt), (''title'', title)]) (zip (texts s) (titles s))))"
    by (simp add: indexing_eq indexed_def) (simp add: cell22_eq)
  have d: "map_sum id indexed (run_to_24 chunker oc s) =
     Inr (stored_of oc 0 (titled_rows chunker (docs s) (source_titles s)))"
    by (simp add: run_to_24_eq indexed_def)
  have e: "map_sum id (map properties \<circ> indexed) (run_to_24 chunker (numbered_from b) s) =
     Inr (titled_rows chunker (docs s) (source_titles s))"
    by (simp add: run_to_24_eq indexed_def stored_of_numbered)
  show ?thesis
    using a b c d e by (simp add: titled_rows_def)
qed

text \<open>
  C3 with a deletion by document does not hold: the collection holds a record of the
  document titled \<open>U\<close>, the document titled \<open>T\<close> is indexed, and afterwards the
  record of \<open>U\<close> is gone.
\<close>

theorem reindex_other_document_counterexample:
  "map properties (indexed held_notebook) = [[(''text'', ''U C1''), (''title'', ''U'')]] \<and>
   source_titles held_notebook = [''T''] \<and>
   map_sum id (map properties \<circ> indexed)
     (run_to_24 listed_chunks (numbered_from 0) held_notebook) =
       Inr [[(''text'', ''T B1''), (''title'', ''T'')], [(''text'', ''T B2''), (''title'', ''T'')]]"
proof -
  have "titled_rows listed_chunks (docs held_notebook) (source_titles held_notebook) =
     [[(''text'', ''T B1''), (''title'', ''T'')], [(''text'', ''T B2''), (''title'', ''T'')]]"
    by (simp add: titled_rows_def held_notebook_def fresh_notebook_def listed_chunks_def)
  then show ?thesis
    by (simp add: run_to_24_eq indexed_def numbered_from_def)
       (simp add: held_notebook_def fresh_notebook_def)
qed

text \<open>
  C4. When the store refuses some objects of the batch, cell 24 prints the store's
  errors, whose keys are exactly the batch positions of the refused objects; the
  accepted objects are in the collection, after the objects it already held, and
  nothing is taken back.
\<close>

theorem partial_failure_reported:
  "client s (collection s) = Some coll \<Longrightarrow>
   map_sum id (\<lambda>s'. (client s' (collection s'), last (stdout s'))) (cell24 oc s) =
     Inr (Some (coll\<lparr>stored := stored coll @ stored_of oc 0 (data s)\<rparr>),
          if errors_of oc 0 (data s) = [] then Print_str ''Insert complete.''
          else Print_errors (errors_of oc 0 (data s))) \<and>
   map fst (errors_of oc 0 (data s)) = filter (\<lambda>i. \<not> is_Stored (oc i)) [0..<length (data s)] \<and>
   map properties (stored_of oc 0 (data s)) =
     map snd (filter (\<lambda>(i, d). is_Stored (oc i)) (zip [0..<length (data s)] (data s)))"
  using errors_of_keys[of oc 0 "data s"] stored_of_properties[of oc 0 "data s"]
  by (simp add: cell24_eq)

text \<open>
  C4 on a batch of two rows whose second object the store refuses: the first object is
  stored, and the error printed is the one at position 1.
\<close>

theorem partial_failure_reported_witness:
  "client ready_notebook (collection ready_notebook) = Some empty_docling \<and>
   map_sum id (\<lambda>s'. (client s' (collection s'), last (stdout s'))) (cell24 refuse_odd ready_notebook) =
     Inr (Some (empty_docling\<lparr>stored :=
                  [\<lparr>uuid = 0, properties = [(''text'', ''T B1''), (''title'', ''T'')]\<rparr>]\<rparr>),
          Print_errors [(1, ''refused'')])"
proof -
  have h: "client ready_notebook (collection ready_notebook) = Some empty_docling"
    by (simp add: ready_notebook_def)
  have d: "data ready_notebook =
      [[(''text'', ''T B1''), (''title'', ''T'')], [(''text'', ''T B2''), (''title'', ''T'')]]"
    by (simp add: ready_notebook_def)
  show ?thesis
    using h partial_failure_reported[OF h, of refuse_odd]
    by (simp add: d refuse_odd_def stored_empty_docling)
qed

text \<open>
  C10. Running the indexing sequence twice leaves the collection as the second run
  alone leaves it: it holds the objects the second run stored and nothing of the
  first. On a store that accepts every object, the records in the collection are
  exactly the rows.
\<close>

theorem indexing_twice:
  "map_sum id (\<lambda>s'. client s' ''docling'') (then_cell (indexing oc1 s) (indexing oc2)) =
     map_sum id (\<lambda>s'. client s' ''docling'') (indexing oc2 s) \<and>
   map_sum id indexed (then_cell (indexing oc1 s) (indexing oc2)) =
     Inr (stored_of oc2 0 (data (cell22 s))) \<and>
   map_sum id (map properties \<circ> indexed)
       (then_cell (indexing (numbered_from a) s) (indexing (numbered_from b))) =
     Inr (data (cell22 s))"
proof -
  have d: "data (cell22 (s\<lparr>client := c, collection_name := n, collection := h, data := x,
                           response := r, stdout := out\<rparr>)) = data (cell22 s)" for c n h x r out
    by (simp add: cell22_def)
  show ?thesis
    by (simp add: then_cell_def indexing_eq indexed_def d stored_of_numbered)
qed

subsection \<open>Retrieval and generation\<close>




end
